theory Spec2Isabelle
  imports Complex_Main "HOL-Library.Word"
begin

section \<open>JavaScript values\<close>

text \<open>
  A JavaScript number is either \<open>NaN\<close>, an infinity or a finite value. The handlers only
  compare, clamp and truncate numbers, so a finite value is a rational (every finite double
  is one); \<open>-0\<close> is identified with \<open>0\<close>, which the code cannot tell apart (both are falsy
  and both clamp to the lower bound).
\<close>

datatype jsnum = NaN | NInf | Fin rat | PInf

text \<open>\<open>Math.min\<close> and \<open>Math.max\<close>: \<open>NaN\<close> if an argument is \<open>NaN\<close>.\<close>

fun js_min :: "jsnum \<Rightarrow> jsnum \<Rightarrow> jsnum" where
  "js_min NaN y = NaN"
| "js_min x NaN = NaN"
| "js_min NInf y = NInf"
| "js_min x NInf = NInf"
| "js_min PInf y = y"
| "js_min x PInf = x"
| "js_min (Fin a) (Fin b) = Fin (min a b)"

fun js_max :: "jsnum \<Rightarrow> jsnum \<Rightarrow> jsnum" where
  "js_max NaN y = NaN"
| "js_max x NaN = NaN"
| "js_max PInf y = PInf"
| "js_max x PInf = PInf"
| "js_max NInf y = y"
| "js_max x NInf = x"
| "js_max (Fin a) (Fin b) = Fin (max a b)"

text \<open>Truthiness of a number: \<open>0\<close> and \<open>NaN\<close> are falsy.\<close>

fun num_truthy :: "jsnum \<Rightarrow> bool" where
  "num_truthy NaN = False"
| "num_truthy (Fin q) = (q \<noteq> 0)"
| "num_truthy _ = True"

text \<open>\<open>function clamp(n, lo, hi) { return Math.max(lo, Math.min(hi, n)); }\<close>\<close>

definition clamp :: "jsnum \<Rightarrow> jsnum \<Rightarrow> jsnum \<Rightarrow> jsnum" where
  "clamp n lo hi = js_max lo (js_min hi n)"

text \<open>
  \<open>xs.slice(0, end)\<close>: the end is converted with ToIntegerOrInfinity (\<open>NaN\<close> becomes 0, a
  fraction is truncated towards zero), a negative end counts from the back, and the result
  never reaches past the array.
\<close>

definition trunc :: "rat \<Rightarrow> int" where
  "trunc q = (if 0 \<le> q then \<lfloor>q\<rfloor> else \<lceil>q\<rceil>)"

fun slice0 :: "'a list \<Rightarrow> jsnum \<Rightarrow> 'a list" where
  "slice0 xs NaN = []"
| "slice0 xs NInf = []"
| "slice0 xs PInf = xs"
| "slice0 xs (Fin q) =
     (let k = trunc q
      in if k < 0 then take (nat (int (length xs) + k)) xs else take (nat k) xs)"

text \<open>
  \<open>new Array(n)\<close> with a number: a RangeError unless \<open>n\<close> is an integer in \<open>0 .. 2^32 - 1\<close>.
\<close>

datatype exn = TypeError string | RangeError string | SyntaxError string | Error string

fun new_Array_len :: "jsnum \<Rightarrow> exn + nat" where
  "new_Array_len (Fin q) =
     (if 0 \<le> q \<and> q < 4294967296 \<and> of_int \<lfloor>q\<rfloor> = q then Inr (nat \<lfloor>q\<rfloor>)
      else Inl (RangeError ''Invalid array length''))"
| "new_Array_len _ = Inl (RangeError ''Invalid array length'')"

text \<open>
  A string is a list of characters. The handlers compare strings, cut them at a comma and
  concatenate them; nothing below depends on how a character outside ASCII is encoded.
\<close>

text \<open>
  Parsed JSON. A property that is absent reads as \<open>undefined\<close>, which is \<open>None\<close> below. An
  object is the list of its own properties, in order, each name once.
\<close>

datatype json =
    JNull
  | JBool bool
  | JNum jsnum
  | JStr string
  | JArr "json list"
  | JObj "(string \<times> json) list"

text \<open>
  Reading a property, \<open>s.id\<close>: the property of an object, \<open>undefined\<close> on the other values
  (none of the names the handlers read is a property of a string, a number, a boolean or an
  array), and a TypeError on \<open>null\<close>.
\<close>

fun field :: "json \<Rightarrow> string \<Rightarrow> json option" where
  "field (JObj kvs) k = map_of kvs k"
| "field _ k = None"

definition get_prop :: "json \<Rightarrow> string \<Rightarrow> exn + json option" where
  "get_prop s k =
     (if s = JNull then Inl (TypeError (''Cannot read properties of null (reading '' @ k @ '')''))
      else Inr (field s k))"

fun truthy :: "json option \<Rightarrow> bool" where
  "truthy None = False"
| "truthy (Some JNull) = False"
| "truthy (Some (JBool b)) = b"
| "truthy (Some (JNum n)) = num_truthy n"
| "truthy (Some (JStr s)) = (s \<noteq> [])"
| "truthy (Some (JArr xs)) = True"
| "truthy (Some (JObj kvs)) = True"

section \<open>The platform\<close>

text \<open>
  The built-ins of the JavaScript runtime that the handlers call are parameters of the
  model: the URL parser, \<open>Number\<close> on a string, \<open>String\<close> on a number and the base64
  decoder of \<open>Buffer.from\<close>. A theorem stated for a platform \<open>plat\<close> holds for whatever these
  functions compute.
\<close>

record url =
  u_scheme :: string
  u_host :: string
  u_pathname :: string
  u_search :: "(string \<times> string) list"

type_synonym bytes = "8 word list"

record platform =
  url_parse :: "string \<Rightarrow> url option"
  to_number :: "string \<Rightarrow> jsnum"
  num_to_string :: "jsnum \<Rightarrow> string"
  base64_decode :: "string \<Rightarrow> bytes option"

text \<open>\<open>u.protocol\<close> and \<open>u.origin\<close> of a parsed URL, as the URL standard defines them.\<close>

definition protocol :: "url \<Rightarrow> string" where
  "protocol u = u_scheme u @ '':''"

definition url_origin :: "url \<Rightarrow> string" where
  "url_origin u =
     (if u_scheme u \<in> set [''http'', ''https'', ''ftp'', ''ws'', ''wss'']
      then u_scheme u @ ''://'' @ u_host u else ''null'')"

text \<open>\<open>String(x)\<close> on a parsed JSON value; the elements of an array are joined by commas.\<close>

fun join :: "string \<Rightarrow> string list \<Rightarrow> string" where
  "join sep [] = []"
| "join sep [x] = x"
| "join sep (x # y # ys) = x @ sep @ join sep (y # ys)"

fun js_String :: "platform \<Rightarrow> json \<Rightarrow> string" where
  "js_String plat JNull = ''null''"
| "js_String plat (JBool b) = (if b then ''true'' else ''false'')"
| "js_String plat (JNum n) = num_to_string plat n"
| "js_String plat (JStr s) = s"
| "js_String plat (JArr xs) =
     join '','' (map (\<lambda>x. if x = JNull then [] else js_String plat x) xs)"
| "js_String plat (JObj kvs) = ''[object Object]''"

text \<open>The decimal digits of an index, \<open>String(t)\<close>, and \<open>padStart(2, "0")\<close>.\<close>

fun dec_of_nat :: "nat \<Rightarrow> string" where
  "dec_of_nat n =
     (if n < 10 then [''0123456789'' ! n]
      else dec_of_nat (n div 10) @ [''0123456789'' ! (n mod 10)])"

declare dec_of_nat.simps [simp del]

definition padStart2 :: "string \<Rightarrow> string" where
  "padStart2 s = replicate (2 - length s) CHR ''0'' @ s"

section \<open>Configuration\<close>

text \<open>
  \<open>process.env\<close> is the list of the environment variables. \<open>process.env.X || d\<close> takes the
  default when the variable is unset or empty.
\<close>

type_synonym env = "(string \<times> string) list"

definition getenv :: "env \<Rightarrow> string \<Rightarrow> string option" where
  "getenv e k = (case map_of e k of Some s \<Rightarrow> (if s = [] then None else Some s) | None \<Rightarrow> None)"

fun split_on :: "char \<Rightarrow> string \<Rightarrow> string list" where
  "split_on c [] = [[]]"
| "split_on c (x # xs) =
     (if x = c then [] # split_on c xs
      else (case split_on c xs of [] \<Rightarrow> [[x]] | w # ws \<Rightarrow> (x # w) # ws))"

definition is_space :: "char \<Rightarrow> bool" where
  "is_space c = (of_char c \<in> set [9, 10, 11, 12, 13, 32, 160 :: nat])"

definition trim :: "string \<Rightarrow> string" where
  "trim s = rev (dropWhile is_space (rev (dropWhile is_space s)))"

definition ORIGINS :: "env \<Rightarrow> string list" where
  "ORIGINS e =
     filter (\<lambda>s. s \<noteq> [])
       (map trim (split_on CHR '','' (case getenv e ''ALLOWED_ORIGINS'' of Some s \<Rightarrow> s | None \<Rightarrow> [])))"

definition CF_URL :: "env \<Rightarrow> string option" where
  "CF_URL e = map_of e ''CF_WORKER_URL''"

definition CF_TOKEN :: "env \<Rightarrow> string option" where
  "CF_TOKEN e = map_of e ''CF_WORKER_TOKEN''"

definition DEFAULT_WORKER_MAX :: "platform \<Rightarrow> env \<Rightarrow> jsnum" where
  "DEFAULT_WORKER_MAX plat e =
     (case getenv e ''WORKER_MAX'' of Some s \<Rightarrow> to_number plat s | None \<Rightarrow> Fin 6)"

definition DEFAULT_MAX_SECTIONS :: "platform \<Rightarrow> env \<Rightarrow> jsnum" where
  "DEFAULT_MAX_SECTIONS plat e =
     (case getenv e ''MAX_SECTIONS'' of Some s \<Rightarrow> to_number plat s
      | None \<Rightarrow> DEFAULT_WORKER_MAX plat e)"

definition UPLOAD_CONCURRENCY :: "platform \<Rightarrow> env \<Rightarrow> jsnum" where
  "UPLOAD_CONCURRENCY plat e =
     (case getenv e ''UPLOAD_CONCURRENCY'' of Some s \<Rightarrow> to_number plat s | None \<Rightarrow> Fin 2)"

section \<open>Small utilities of the scrape route\<close>

definition cors :: "env \<Rightarrow> string option \<Rightarrow> (string \<times> string) list" where
  "cors e og =
     [(''access-control-allow-origin'',
        (case og of
           Some x \<Rightarrow> if x \<noteq> [] \<and> x \<in> set (ORIGINS e) then x else ''null''
         | None \<Rightarrow> ''null'')),
      (''access-control-allow-methods'', ''POST, GET, OPTIONS''),
      (''access-control-allow-headers'', ''content-type''),
      (''access-control-max-age'', ''86400''),
      (''vary'', ''Origin'')]"

text \<open>
  \<open>norm\<close>: the string handed to the URL constructor is the input itself when it starts
  with the four characters \<open>http\<close>, and the input behind \<open>https://\<close> otherwise.
\<close>

definition norm_arg :: "string \<Rightarrow> string" where
  "norm_arg input = (if take 4 input = ''http'' then input else ''https://'' @ input)"

definition norm_url :: "platform \<Rightarrow> string \<Rightarrow> exn + string" where
  "norm_url plat input =
     (case url_parse plat (norm_arg input) of
        None \<Rightarrow> Inl (TypeError ''Invalid URL'')
      | Some u \<Rightarrow>
          if protocol u \<noteq> ''http:'' \<and> protocol u \<noteq> ''https:'' then Inl (Error ''bad protocol'')
          else Inr (url_origin u))"

section \<open>Object storage\<close>

text \<open>
  The object storage behind the \<open>CLOUD_FILES\<close> binding is an external service, a key/value
  blob store with \<open>put(key, bytes, { contentType })\<close> and \<open>get(key) -> { body, httpMetadata }\<close>:
  a stored object is its bytes with its content-type tag, \<open>put\<close> writes the object under the
  key and \<open>get\<close> reads it back (nothing when the key holds no object). A \<open>put\<close> is taken
  to succeed.
\<close>

type_synonym store = "string \<rightharpoonup> bytes \<times> string"

type_synonym put = "string \<times> bytes \<times> string"

definition bucket_put :: "put \<Rightarrow> store \<Rightarrow> store" where
  "bucket_put p b = (case p of (key, value, contentType) \<Rightarrow> b(key \<mapsto> (value, contentType)))"

definition bucket_get :: "store \<Rightarrow> string \<Rightarrow> (bytes \<times> string) option" where
  "bucket_get b key = b key"

section \<open>pMap: the bounded worker pool\<close>

text \<open>
  \<open>pMap\<close> starts \<open>Math.min(limit, items.length)\<close> runners over a shared cursor \<open>i\<close> and a
  result array \<open>ret\<close>. A runner is at the head of its loop (\<open>Idle\<close>), is awaiting the worker
  it started on the index it claimed (\<open>Busy\<close>, with the uploads that worker still has to
  await and the value it will return), has left the loop (\<open>Finished\<close>) or has thrown
  (\<open>Crashed\<close>). A worker call either throws before its first \<open>await\<close> or is a sequence of
  uploads followed by a value. JavaScript runs one runner at a time and switches only at an
  \<open>await\<close>; a step below is the run of one runner up to its next \<open>await\<close>.
\<close>

datatype 'r runner = Idle | Busy nat "put list" 'r | Finished | Crashed exn

record 'r pstate =
  cursor :: nat
  ret :: "'r option list"
  runners :: "'r runner list"
  bucket :: store
  rejection :: "exn option"

type_synonym ('a, 'r) worker = "'a \<Rightarrow> nat \<Rightarrow> exn + put list \<times> 'r"

definition runner_step ::
  "'a list \<Rightarrow> ('a, 'r) worker \<Rightarrow> nat \<Rightarrow> 'r pstate \<Rightarrow> 'r pstate" where
  "runner_step items worker k st =
     (case runners st ! k of
        Idle \<Rightarrow>
          if cursor st < length items then
            (let cur = cursor st
             in case worker (items ! cur) cur of
                  Inl e \<Rightarrow>
                    st\<lparr>cursor := cur + 1, runners := (runners st)[k := Crashed e],
                       rejection := (case rejection st of None \<Rightarrow> Some e | Some e0 \<Rightarrow> Some e0)\<rparr>
                | Inr (ps, r) \<Rightarrow>
                    st\<lparr>cursor := cur + 1, runners := (runners st)[k := Busy cur ps r]\<rparr>)
          else st\<lparr>runners := (runners st)[k := Finished]\<rparr>
      | Busy cur ps r \<Rightarrow>
          (case ps of
             [] \<Rightarrow> st\<lparr>ret := (ret st)[cur := Some r], runners := (runners st)[k := Idle]\<rparr>
           | p # ps' \<Rightarrow>
               st\<lparr>bucket := bucket_put p (bucket st),
                  runners := (runners st)[k := Busy cur ps' r]\<rparr>)
      | Finished \<Rightarrow> st
      | Crashed e \<Rightarrow> st)"

fun is_active :: "'r runner \<Rightarrow> bool" where
  "is_active Idle = True"
| "is_active (Busy cur ps r) = True"
| "is_active Finished = False"
| "is_active (Crashed e) = False"

definition active_list :: "'r pstate \<Rightarrow> nat list" where
  "active_list st = filter (\<lambda>k. is_active (runners st ! k)) [0..<length (runners st)]"

text \<open>
  The order in which the runners take their steps is not fixed by the code: it depends on
  when the uploads complete. A scheduler picks, in every state, which of the runners that
  can go on takes the next step; the pool runs until no runner can.
\<close>

type_synonym 'r sched = "'r pstate \<Rightarrow> nat"

fun runner_work :: "'r runner \<Rightarrow> nat" where
  "runner_work Idle = 1"
| "runner_work (Busy cur ps r) = length ps + 2"
| "runner_work Finished = 0"
| "runner_work (Crashed e) = 0"

fun call_work :: "exn + put list \<times> 'r \<Rightarrow> nat" where
  "call_work (Inl e) = 0"
| "call_work (Inr (ps, r)) = length ps + 2"

definition work :: "'a list \<Rightarrow> ('a, 'r) worker \<Rightarrow> 'r pstate \<Rightarrow> nat" where
  "work items worker st =
     sum_list (map runner_work (runners st)) +
     sum_list (map (\<lambda>i. call_work (worker (items ! i) i)) [cursor st..<length items])"

function run :: "'a list \<Rightarrow> ('a, 'r) worker \<Rightarrow> 'r sched \<Rightarrow> 'r pstate \<Rightarrow> 'r pstate" where
  "run items worker pick st =
     (if active_list st = [] then st
      else run items worker pick
             (runner_step items worker
                (active_list st ! (pick st mod length (active_list st))) st))"
  by pat_completeness auto
termination
proof (relation "measure (\<lambda>(items, worker, pick, st). work items worker st)")
  show "wf (measure (\<lambda>(items, worker, pick, st). work items worker st))" by simp
next
  fix items :: "'a list" and worker :: "('a, 'r) worker" and pick :: "'r sched"
    and st :: "'r pstate"
  assume act: "active_list st \<noteq> []"
  define k where "k = active_list st ! (pick st mod length (active_list st))"
  have "k \<in> set (active_list st)"
    using act by (simp add: k_def)
  then have k: "k < length (runners st)" and active: "is_active (runners st ! k)"
    by (simp_all add: active_list_def)
  have upd: "sum_list (map runner_work (rs[j := x])) + runner_work (rs ! j) =
      sum_list (map runner_work rs) + runner_work x" if "j < length rs"
    for rs :: "'r runner list" and j x
    using that
  proof (induction rs arbitrary: j)
    case Nil
    then show ?case by simp
  next
    case (Cons a rs)
    then show ?case by (cases j) auto
  qed
  have "work items worker (runner_step items worker k st) < work items worker st"
  proof (cases "runners st ! k")
    case Idle
    show ?thesis
    proof (cases "cursor st < length items")
      case True
      have upt: "[cursor st..<length items] = cursor st # [Suc (cursor st)..<length items]"
        using True by (simp add: upt_conv_Cons)
      show ?thesis
      proof (cases "worker (items ! cursor st) (cursor st)")
        case (Inl e)
        with Idle True upt upd [OF k, of "Crashed e"] show ?thesis
          by (simp add: runner_step_def work_def Let_def)
      next
        case (Inr pr)
        obtain ps r where pr: "pr = (ps, r)" by (cases pr)
        with Inr Idle True upt upd [OF k, of "Busy (cursor st) ps r"] show ?thesis
          by (simp add: runner_step_def work_def Let_def)
      qed
    next
      case False
      with Idle upd [OF k, of Finished] show ?thesis
        by (simp add: runner_step_def work_def Let_def)
    qed
  next
    case (Busy cur ps r)
    show ?thesis
    proof (cases ps)
      case Nil
      with Busy upd [OF k, of Idle] show ?thesis
        by (simp add: runner_step_def work_def Let_def)
    next
      case (Cons p ps')
      with Busy upd [OF k, of "Busy cur ps' r"] show ?thesis
        by (simp add: runner_step_def work_def Let_def)
    qed
  next
    case Finished
    with active show ?thesis by simp
  next
    case (Crashed e)
    with active show ?thesis by simp
  qed
  then show "((items, worker, pick,
               runner_step items worker (active_list st ! (pick st mod length (active_list st))) st),
              (items, worker, pick, st))
             \<in> measure (\<lambda>(items, worker, pick, st). work items worker st)"
    by (simp add: k_def)
qed

text \<open>
  \<open>pMap\<close> itself: \<open>new Array\<close> throws a RangeError when the number of runners is not an array
  length; \<open>Promise.all\<close> rejects with the first error a runner threw, and resolves to \<open>ret\<close>
  when every runner has left its loop (entries never written stay holes, \<open>None\<close>).
\<close>

definition pMap_init :: "'a list \<Rightarrow> nat \<Rightarrow> store \<Rightarrow> 'r pstate" where
  "pMap_init items n b =
     \<lparr>cursor = 0, ret = replicate (length items) None, runners = replicate n Idle,
      bucket = b, rejection = None\<rparr>"

definition pMap ::
  "'r sched \<Rightarrow> 'a list \<Rightarrow> jsnum \<Rightarrow> ('a, 'r) worker \<Rightarrow> store \<Rightarrow> (exn + 'r option list) \<times> store" where
  "pMap pick items limit worker b =
     (case new_Array_len (js_min limit (Fin (of_nat (length items)))) of
        Inl e \<Rightarrow> (Inl e, b)
      | Inr n \<Rightarrow>
          (let st = run items worker pick (pMap_init items n b)
           in (case rejection st of Some e \<Rightarrow> Inl e | None \<Rightarrow> Inr (ret st), bucket st)))"

text \<open>The states the pool can be in: any number of steps of runners that can go on.\<close>

inductive reach :: "'a list \<Rightarrow> ('a, 'r) worker \<Rightarrow> 'r pstate \<Rightarrow> 'r pstate \<Rightarrow> bool"
  for items :: "'a list" and worker :: "('a, 'r) worker" and st0 :: "'r pstate" where
  reach_init: "reach items worker st0 st0"
| reach_step: "reach items worker st0 st \<Longrightarrow> k < length (runners st) \<Longrightarrow>
     is_active (runners st ! k) \<Longrightarrow> reach items worker st0 (runner_step items worker k st)"


text \<open>The value a worker call returns, if it does not throw.\<close>

fun value_of :: "exn + put list \<times> 'r \<Rightarrow> 'r option" where
  "value_of (Inl e) = None"
| "value_of (Inr (ps, r)) = Some r"





section \<open>Persisting one section\<close>

text \<open>
  \<open>safeDataUrlToBytes\<close>: \<open>null\<close> unless the value is a string with a comma; the part behind
  the first comma goes to the base64 decoder, and an exception of the decoder is \<open>null\<close> too.
\<close>

fun safeDataUrlToBytes :: "platform \<Rightarrow> json option \<Rightarrow> bytes option" where
  "safeDataUrlToBytes plat (Some (JStr s)) =
     (if CHR '','' \<notin> set s then None
      else base64_decode plat (tl (dropWhile (\<lambda>c. c \<noteq> CHR '','') s)))"
| "safeDataUrlToBytes plat _ = None"

fun safeBase64FromDataUrl :: "json option \<Rightarrow> string option" where
  "safeBase64FromDataUrl (Some (JStr s)) =
     (if CHR '','' \<in> set s then Some (tl (dropWhile (\<lambda>c. c \<noteq> CHR '','') s)) else None)"
| "safeBase64FromDataUrl _ = None"

text \<open>
  The tests on a value of unknown type: \<open>s && typeof s === "object"\<close>,
  \<open>Array.isArray(x) && x.length\<close>, \<open>Array.isArray(x)\<close>, \<open>typeof x === "string"\<close> and
  \<open>typeof x === "number"\<close>.
\<close>

fun is_object :: "json \<Rightarrow> bool" where
  "is_object (JArr xs) = True"
| "is_object (JObj kvs) = True"
| "is_object _ = False"

definition nonempty_array :: "json option \<Rightarrow> json list option" where
  "nonempty_array x = (case x of Some (JArr xs) \<Rightarrow> if xs = [] then None else Some xs | _ \<Rightarrow> None)"

definition as_array :: "json option \<Rightarrow> json list option" where
  "as_array x = (case x of Some (JArr xs) \<Rightarrow> Some xs | _ \<Rightarrow> None)"

definition as_string :: "json option \<Rightarrow> string option" where
  "as_string x = (case x of Some (JStr t) \<Rightarrow> Some t | _ \<Rightarrow> None)"

definition as_number :: "json option \<Rightarrow> jsnum option" where
  "as_number x = (case x of Some (JNum n) \<Rightarrow> Some n | _ \<Rightarrow> None)"

text \<open>\<open>if (s.k) out.k = String(s.k)\<close>\<close>

definition copy_string :: "platform \<Rightarrow> json \<Rightarrow> string \<Rightarrow> (string \<times> json) list" where
  "copy_string plat s k =
     (case field s k of
        Some v \<Rightarrow> if truthy (Some v) then [(k, JStr (js_String plat v))] else []
      | None \<Rightarrow> [])"

definition cleanSectionMeta :: "platform \<Rightarrow> json \<Rightarrow> (string \<times> json) list" where
  "cleanSectionMeta plat s =
     (if is_object s then
        copy_string plat s ''id'' @
        copy_string plat s ''role'' @
        (case as_array (field s ''bbox'') of Some xs \<Rightarrow> [(''bbox'', JArr (take 4 xs))] | None \<Rightarrow> []) @
        (case as_number (field s ''confidence'') of Some n \<Rightarrow> [(''confidence'', JNum n)] | None \<Rightarrow> []) @
        copy_string plat s ''label''
      else [])"

text \<open>What the handler has fixed before it starts the pool.\<close>

record ctx =
  jobId :: string
  siteOrigin :: string
  basePath :: string
  absolute :: bool
  includeB64 :: bool

definition buildUrl :: "ctx \<Rightarrow> string \<Rightarrow> string" where
  "buildUrl c key =
     (let relativeUrl = basePath c @ ''/api/images/'' @ key
      in if absolute c then siteOrigin c @ relativeUrl else relativeUrl)"

definition tile_key :: "ctx \<Rightarrow> string \<Rightarrow> nat \<Rightarrow> string" where
  "tile_key c sid t =
     ''jobs/'' @ jobId c @ ''/'' @ sid @ ''/tile_'' @ padStart2 (dec_of_nat t) @ ''.jpg''"

text \<open>
  The loop over the tiles of a section, from tile number \<open>t\<close> on: the uploads it awaits and
  the URLs it pushes. A tile that does not decode is skipped.
\<close>

fun tiles_loop :: "platform \<Rightarrow> ctx \<Rightarrow> string \<Rightarrow> nat \<Rightarrow> json list \<Rightarrow> put list \<times> string list" where
  "tiles_loop plat c sid t [] = ([], [])"
| "tiles_loop plat c sid t (img # imgs) =
     (case safeDataUrlToBytes plat (Some img) of
        None \<Rightarrow> tiles_loop plat c sid (Suc t) imgs
      | Some bytes \<Rightarrow>
          (case tiles_loop plat c sid (Suc t) imgs of
             (ps, urls) \<Rightarrow>
               ((tile_key c sid t, bytes, ''image/jpeg'') # ps,
                buildUrl c (tile_key c sid t) # urls)))"

fun is_JStr :: "json \<Rightarrow> bool" where
  "is_JStr (JStr s) = True"
| "is_JStr _ = False"

text \<open>The base64 strings derived from the tiles' data URLs; empty ones are dropped.\<close>

fun derive_b64s :: "json list \<Rightarrow> string list" where
  "derive_b64s [] = []"
| "derive_b64s (img # imgs) =
     (case safeBase64FromDataUrl (Some img) of
        Some b64 \<Rightarrow> if b64 \<noteq> [] then b64 # derive_b64s imgs else derive_b64s imgs
      | None \<Rightarrow> derive_b64s imgs)"

text \<open>\<open>const safeId = s.id || `section_${idx}`\<close>, as the key templates print it.\<close>

definition safeId :: "platform \<Rightarrow> json \<Rightarrow> nat \<Rightarrow> string" where
  "safeId plat s idx =
     (case field s ''id'' of
        Some v \<Rightarrow> if truthy (Some v) then js_String plat v else ''section_'' @ dec_of_nat idx
      | None \<Rightarrow> ''section_'' @ dec_of_nat idx)"

text \<open>
  The worker that \<open>handle\<close> hands to \<open>pMap\<close>, \<open>async (s, idx) => { ... }\<close>, in its three
  branches. A section with a non-empty \<open>images\<close> array: the tiles are uploaded and \<open>images\<close>
  becomes the list of their URLs.
\<close>

definition tiled_section ::
  "platform \<Rightarrow> ctx \<Rightarrow> json \<Rightarrow> nat \<Rightarrow> json list \<Rightarrow> put list \<times> json" where
  "tiled_section plat c s idx imgs =
     (case tiles_loop plat c (safeId plat s idx) 0 imgs of
        (ps, urls) \<Rightarrow>
          (let out = cleanSectionMeta plat s @ [(''images'', JArr (map JStr urls))]
           in if includeB64 c then
                (case nonempty_array (field s ''images_b64'') of
                   Some bs \<Rightarrow> (ps, JObj (out @ [(''images_b64'', JArr (filter is_JStr bs))]))
                 | None \<Rightarrow>
                     (let b64s = derive_b64s imgs
                      in if b64s \<noteq> [] then (ps, JObj (out @ [(''images_b64'', JArr (map JStr b64s))]))
                         else (ps, JObj out)))
              else (ps, JObj out)))"

text \<open>A section whose single image decodes to \<open>bytes\<close>: it is uploaded and \<open>image\<close> is its URL.\<close>

definition single_section ::
  "platform \<Rightarrow> ctx \<Rightarrow> json \<Rightarrow> nat \<Rightarrow> bytes \<Rightarrow> put list \<times> json" where
  "single_section plat c s idx bytes =
     (let key = ''jobs/'' @ jobId c @ ''/'' @ safeId plat s idx @ ''.jpg'';
          out = cleanSectionMeta plat s @ [(''image'', JStr (buildUrl c key))];
          ps = [(key, bytes, ''image/jpeg'')]
      in if includeB64 c then
           (case as_string (field s ''image_b64'') of
              Some b \<Rightarrow> (ps, JObj (out @ [(''image_b64'', JStr b)]))
            | None \<Rightarrow>
                (case safeBase64FromDataUrl (field s ''image'') of
                   Some b64 \<Rightarrow>
                     if b64 \<noteq> [] then (ps, JObj (out @ [(''image_b64'', JStr b64)]))
                     else (ps, JObj out)
                 | None \<Rightarrow> (ps, JObj out)))
         else (ps, JObj out))"

text \<open>Nothing valid to persist: the metadata, and the base64 fields if they were asked for.\<close>

definition bare_section :: "platform \<Rightarrow> ctx \<Rightarrow> json \<Rightarrow> json" where
  "bare_section plat c s =
     (if includeB64 c then
        JObj (cleanSectionMeta plat s @
          (case as_string (field s ''image_b64'') of Some b \<Rightarrow> [(''image_b64'', JStr b)] | None \<Rightarrow> []) @
          (case as_array (field s ''images_b64'') of
             Some bs \<Rightarrow> [(''images_b64'', JArr (filter is_JStr bs))]
           | None \<Rightarrow> []))
      else JObj (cleanSectionMeta plat s))"

text \<open>
  The worker throws on a section that is \<open>null\<close> (at \<open>s.id\<close>, before its first \<open>await\<close>);
  otherwise it is the uploads it awaits and the output section it returns.
\<close>

definition section_worker :: "platform \<Rightarrow> ctx \<Rightarrow> json \<Rightarrow> nat \<Rightarrow> exn + put list \<times> json" where
  "section_worker plat c s idx =
     (case get_prop s ''id'' of
        Inl e \<Rightarrow> Inl e
      | Inr sid \<Rightarrow>
          (case nonempty_array (field s ''images'') of
             Some imgs \<Rightarrow> Inr (tiled_section plat c s idx imgs)
           | None \<Rightarrow>
               (case safeDataUrlToBytes plat (field s ''image'') of
                  Some bytes \<Rightarrow> Inr (single_section plat c s idx bytes)
                | None \<Rightarrow> Inr ([], bare_section plat c s))))"

section \<open>Requests, responses and the world outside\<close>

text \<open>
  A request as the handlers read it: the \<open>Origin\<close> header, the query parameters of its URL
  in order, the host of its URL, the two forwarding headers, and the result of
  \<open>await req.json()\<close>.
\<close>

record request =
  req_origin :: "string option"
  req_search :: "(string \<times> string) list"
  req_host :: string
  req_fwd_proto :: "string option"
  req_fwd_host :: "string option"
  req_json :: "exn + json"

text \<open>
  A response body is absent, a text, bytes, or \<open>JSON.stringify\<close> of a value. A response
  built without a status has status 200.
\<close>

datatype body = NoBody | Text string | Bytes bytes | Json json

record response =
  status :: nat
  body :: body
  headers :: "(string \<times> string) list"

text \<open>
  \<open>new Response(body, { status })\<close> with a status taken from another response: a RangeError
  outside 200..599 and a TypeError for a body with a status that allows none.
\<close>

definition new_Response :: "body \<Rightarrow> nat \<Rightarrow> (string \<times> string) list \<Rightarrow> exn + response" where
  "new_Response b st hs =
     (if st < 200 \<or> 599 < st then Inl (RangeError ''init.status is out of range'')
      else if b \<noteq> NoBody \<and> st \<in> set [204, 205, 304]
      then Inl (TypeError ''Response with null body status cannot have body'')
      else Inr \<lparr>status = st, body = b, headers = hs\<rparr>)"

text \<open>
  The request sent to the upstream worker, what it answers, and the rest of the world of one
  request: the upstream service, the storage binding with its content (absent when the
  binding is missing), the job id that \<open>crypto.randomUUID()\<close> draws and the order in which the
  uploads of the pool complete.
\<close>

record worker_request =
  wr_url :: url
  wr_search :: "(string \<times> string) list"
  wr_authorization :: string

record wres =
  w_status :: nat
  w_text :: string
  w_json :: "exn + json"

record world =
  upstream :: "worker_request \<Rightarrow> exn + wres"
  cloud_files :: "store option"
  uuid :: string
  completion :: "json sched"

text \<open>
  What a handler does: the response it returns or the exception that escapes it, the
  requests it sent upstream, and the storage afterwards.
\<close>

record outcome =
  reply :: "exn + response"
  fetched :: "worker_request list"
  files :: "store option"

text \<open>\<open>URLSearchParams.set\<close>: the first pair of that name takes the value and the others go.\<close>

fun sp_set :: "string \<Rightarrow> string \<Rightarrow> (string \<times> string) list \<Rightarrow> (string \<times> string) list" where
  "sp_set k v [] = [(k, v)]"
| "sp_set k v (p # ps) =
     (if fst p = k then (k, v) # filter (\<lambda>q. fst q \<noteq> k) ps else p # sp_set k v ps)"

text \<open>\<open>s || d\<close> on a string that may be missing.\<close>

definition str_or :: "string option \<Rightarrow> string \<Rightarrow> string" where
  "str_or s d = (case s of Some x \<Rightarrow> if x = [] then d else x | None \<Rightarrow> d)"

definition publicOrigin :: "env \<Rightarrow> request \<Rightarrow> string" where
  "publicOrigin e req =
     (case getenv e ''PUBLIC_SITE_ORIGIN'' of
        Some forced \<Rightarrow> rev (dropWhile (\<lambda>c. c = CHR ''/'') (rev forced))
      | None \<Rightarrow>
          str_or (req_fwd_proto req) ''https'' @ ''://'' @ str_or (req_fwd_host req) (req_host req))"

section \<open>The scrape route\<close>

definition json_headers :: "env \<Rightarrow> string option \<Rightarrow> (string \<times> string) list" where
  "json_headers e h = (''content-type'', ''application/json'') # cors e h"

text \<open>The limits that \<open>handle\<close> computes.\<close>

definition qMax :: "platform \<Rightarrow> request \<Rightarrow> jsnum" where
  "qMax plat req = to_number plat (str_or (map_of (req_search req) ''max'') [])"

definition workerMax :: "platform \<Rightarrow> env \<Rightarrow> request \<Rightarrow> jsnum" where
  "workerMax plat e req =
     clamp (if num_truthy (qMax plat req) then qMax plat req else DEFAULT_WORKER_MAX plat e)
       (Fin 1) (Fin 12)"

definition hardCap :: "platform \<Rightarrow> env \<Rightarrow> request \<Rightarrow> jsnum" where
  "hardCap plat e req =
     (case getenv e ''MAX_SECTIONS'' of
        Some s \<Rightarrow> to_number plat s
      | None \<Rightarrow>
          if num_truthy (DEFAULT_MAX_SECTIONS plat e) then DEFAULT_MAX_SECTIONS plat e
          else workerMax plat e req)"

definition maxSections :: "platform \<Rightarrow> env \<Rightarrow> request \<Rightarrow> jsnum" where
  "maxSections plat e req = clamp (hardCap plat e req) (Fin 1) (workerMax plat e req)"

text \<open>
  The query of the worker URL: \<open>url\<close> is set to the origin, every query parameter of the
  request but \<open>domain\<close> is set in order, and \<open>max\<close> is set to \<open>workerMax\<close> if it is still
  missing or empty.
\<close>

definition worker_search ::
  "platform \<Rightarrow> env \<Rightarrow> request \<Rightarrow> string \<Rightarrow> (string \<times> string) list \<Rightarrow> (string \<times> string) list" where
  "worker_search plat e req origin base =
     (let ps = fold (\<lambda>kv acc. if fst kv = ''domain'' then acc else sp_set (fst kv) (snd kv) acc)
                 (req_search req) (sp_set ''url'' origin base)
      in if str_or (map_of ps ''max'') [] = []
         then sp_set ''max'' (num_to_string plat (workerMax plat e req)) ps
         else ps)"

text \<open>The value that the last pair named \<open>k\<close> of a query gives to \<open>k\<close>.\<close>

definition last_value :: "(string \<times> string) list \<Rightarrow> string \<Rightarrow> string option" where
  "last_value q k =
     (case filter (\<lambda>kv. fst kv = k) q of [] \<Rightarrow> None | kv # kvs \<Rightarrow> Some (snd (last (kv # kvs))))"

definition exn_message :: "exn \<Rightarrow> string" where
  "exn_message ex =
     (case ex of
        TypeError m \<Rightarrow> if m = [] then ''TypeError'' else m
      | RangeError m \<Rightarrow> if m = [] then ''RangeError'' else m
      | SyntaxError m \<Rightarrow> if m = [] then ''SyntaxError'' else m
      | Error m \<Rightarrow> if m = [] then ''Error'' else m)"

text \<open>The \<open>catch\<close> of \<open>handle\<close>: status 500 with the message of the error.\<close>

definition error_500 :: "env \<Rightarrow> string option \<Rightarrow> exn \<Rightarrow> response" where
  "error_500 e h ex =
     \<lparr>status = 500, body = Json (JObj [(''error'', JStr (exn_message ex))]),
      headers = json_headers e h\<rparr>"

definition caught :: "env \<Rightarrow> string option \<Rightarrow> exn + response \<Rightarrow> response" where
  "caught e h r = (case r of Inl ex \<Rightarrow> error_500 e h ex | Inr resp \<Rightarrow> resp)"

definition hole_to_null :: "json option \<Rightarrow> json" where
  "hole_to_null x = (case x of Some j \<Rightarrow> j | None \<Rightarrow> JNull)"

text \<open>\<open>Array.isArray(payload.sections) ? payload.sections.slice(0, maxSections) : []\<close>\<close>

definition section_list :: "json \<Rightarrow> jsnum \<Rightarrow> json list" where
  "section_list payload cap =
     (case field payload ''sections'' of Some (JArr xs) \<Rightarrow> slice0 xs cap | _ \<Rightarrow> [])"

text \<open>\<open>payload.meta || {}\<close>\<close>

definition payload_meta :: "json \<Rightarrow> json" where
  "payload_meta payload =
     (case field payload ''meta'' of
        Some m \<Rightarrow> if truthy (Some m) then m else JObj []
      | None \<Rightarrow> JObj [])"

definition handle_ctx :: "env \<Rightarrow> request \<Rightarrow> world \<Rightarrow> ctx" where
  "handle_ctx e req w =
     \<lparr>jobId = uuid w, siteOrigin = publicOrigin e req,
      basePath = (case getenv e ''NEXT_PUBLIC_BASE_PATH'' of Some p \<Rightarrow> p | None \<Rightarrow> []),
      absolute = (map_of e ''ABSOLUTE_IMAGE_URLS'' = Some ''1''),
      includeB64 = (map_of (req_search req) ''b64'' = Some ''1'')\<rparr>"

text \<open>
  \<open>handle\<close>, after the upstream worker has answered with a success status and raw mode is
  off: parse, cut the list, check the binding, run the pool, answer.
\<close>

definition persist ::
  "platform \<Rightarrow> env \<Rightarrow> string \<Rightarrow> request \<Rightarrow> string option \<Rightarrow> world \<Rightarrow> wres \<Rightarrow>
   response \<times> store option" where
  "persist plat e origin req h w res =
     (case w_json res of
        Inl ex \<Rightarrow> (error_500 e h ex, cloud_files w)
      | Inr payload \<Rightarrow>
          (case get_prop payload ''sections'' of
             Inl ex \<Rightarrow> (error_500 e h ex, cloud_files w)
           | Inr declared \<Rightarrow>
               (let list = section_list payload (maxSections plat e req)
                in case cloud_files w of
                     None \<Rightarrow>
                       (\<lparr>status = 500,
                         body = Json (JObj [(''error'', JStr ''Storage binding CLOUD_FILES is missing'')]),
                         headers = json_headers e h\<rparr>, None)
                   | Some b \<Rightarrow>
                       (case pMap (completion w) list (UPLOAD_CONCURRENCY plat e)
                               (section_worker plat (handle_ctx e req w)) b of
                          (Inl ex, b') \<Rightarrow> (error_500 e h ex, Some b')
                        | (Inr sections, b') \<Rightarrow>
                            (\<lparr>status = 200,
                              body = Json (JObj
                                [(''jobId'', JStr (uuid w)),
                                 (''origin'', JStr origin),
                                 (''sections'', JArr (map hole_to_null sections)),
                                 (''meta'', payload_meta payload)]),
                              headers = json_headers e h\<rparr>, Some b')))))"

definition handle ::
  "platform \<Rightarrow> env \<Rightarrow> string \<Rightarrow> request \<Rightarrow> string option \<Rightarrow> world \<Rightarrow> outcome" where
  "handle plat e origin req h w =
     (case url_parse plat (case CF_URL e of Some s \<Rightarrow> s | None \<Rightarrow> ''undefined'') of
        None \<Rightarrow>
          \<lparr>reply = Inr (error_500 e h (TypeError ''Invalid URL'')), fetched = [],
           files = cloud_files w\<rparr>
      | Some worker \<Rightarrow>
          (let wreq = \<lparr>wr_url = worker,
                       wr_search = worker_search plat e req origin (u_search worker),
                       wr_authorization =
                         ''Bearer '' @ (case CF_TOKEN e of Some t \<Rightarrow> t | None \<Rightarrow> ''undefined'')\<rparr>
           in case upstream w wreq of
                Inl ex \<Rightarrow>
                  \<lparr>reply = Inr (error_500 e h ex), fetched = [wreq], files = cloud_files w\<rparr>
              | Inr res \<Rightarrow>
                  if map_of (req_search req) ''raw'' = Some ''1'' then
                    \<lparr>reply = Inr (caught e h
                               (new_Response (Text (w_text res)) (w_status res) (json_headers e h))),
                     fetched = [wreq], files = cloud_files w\<rparr>
                  else if \<not> (200 \<le> w_status res \<and> w_status res \<le> 299) then
                    \<lparr>reply = Inr (caught e h
                               (new_Response (Text (w_text res)) (w_status res) (json_headers e h))),
                     fetched = [wreq], files = cloud_files w\<rparr>
                  else
                    (case persist plat e origin req h w res of
                       (resp, fs) \<Rightarrow> \<lparr>reply = Inr resp, fetched = [wreq], files = fs\<rparr>)))"

definition OPTIONS :: "env \<Rightarrow> request \<Rightarrow> response" where
  "OPTIONS e req = \<lparr>status = 200, body = NoBody, headers = cors e (req_origin req)\<rparr>"

definition GET :: "platform \<Rightarrow> env \<Rightarrow> request \<Rightarrow> world \<Rightarrow> outcome" where
  "GET plat e req w =
     (let h = req_origin req
      in if map_of (req_search req) ''ping'' = Some ''1'' then
           \<lparr>reply = Inr
              \<lparr>status = 200,
               body = Json (JObj
                 [(''ok'', JBool True),
                  (''basePath'', JStr (case getenv e ''NEXT_PUBLIC_BASE_PATH'' of Some p \<Rightarrow> p | None \<Rightarrow> [])),
                  (''workerUrlSet'', JBool (getenv e ''CF_WORKER_URL'' \<noteq> None)),
                  (''tokenSet'', JBool (getenv e ''CF_WORKER_TOKEN'' \<noteq> None)),
                  (''envKeys'', JArr (map (\<lambda>kv. JStr (fst kv)) e))]),
               headers = json_headers e h\<rparr>,
            fetched = [], files = cloud_files w\<rparr>
         else
           (case map_of (req_search req) ''domain'' of
              None \<Rightarrow>
                \<lparr>reply = Inr \<lparr>status = 400, body = Text ''Missing domain'', headers = cors e h\<rparr>,
                 fetched = [], files = cloud_files w\<rparr>
            | Some q \<Rightarrow>
                if q = [] then
                  \<lparr>reply = Inr \<lparr>status = 400, body = Text ''Missing domain'', headers = cors e h\<rparr>,
                   fetched = [], files = cloud_files w\<rparr>
                else
                  (case norm_url plat q of
                     Inl ex \<Rightarrow> \<lparr>reply = Inl ex, fetched = [], files = cloud_files w\<rparr>
                   | Inr origin \<Rightarrow> handle plat e origin req h w)))"

text \<open>
  \<open>POST\<close>: \<open>body.domain\<close> of the parsed body, \<open>undefined\<close> when parsing it or reading the
  property throws. \<open>norm\<close> calls \<open>input.startsWith\<close>, which only a string has.
\<close>

definition body_domain :: "request \<Rightarrow> json option" where
  "body_domain req =
     (case req_json req of
        Inl ex \<Rightarrow> None
      | Inr b \<Rightarrow> (case get_prop b ''domain'' of Inl ex \<Rightarrow> None | Inr d \<Rightarrow> d))"

definition forbidden :: "env \<Rightarrow> string option \<Rightarrow> response" where
  "forbidden e h =
     \<lparr>status = 403, body = Json (JObj [(''error'', JStr ''Origin not allowed'')]),
      headers = json_headers e h\<rparr>"

definition POST_allowed :: "platform \<Rightarrow> env \<Rightarrow> request \<Rightarrow> world \<Rightarrow> outcome" where
  "POST_allowed plat e req w =
     (let h = req_origin req
      in case body_domain req of
           None \<Rightarrow>
             \<lparr>reply = Inr \<lparr>status = 400, body = Json (JObj [(''error'', JStr ''Missing domain'')]),
                          headers = json_headers e h\<rparr>,
              fetched = [], files = cloud_files w\<rparr>
         | Some d \<Rightarrow>
             if \<not> truthy (Some d) then
               \<lparr>reply = Inr \<lparr>status = 400, body = Json (JObj [(''error'', JStr ''Missing domain'')]),
                            headers = json_headers e h\<rparr>,
                fetched = [], files = cloud_files w\<rparr>
             else
               (case d of
                  JStr domain \<Rightarrow>
                    (case norm_url plat domain of
                       Inl ex \<Rightarrow> \<lparr>reply = Inl ex, fetched = [], files = cloud_files w\<rparr>
                     | Inr origin \<Rightarrow> handle plat e origin req h w)
                | _ \<Rightarrow>
                    \<lparr>reply = Inl (TypeError ''input.startsWith is not a function''),
                     fetched = [], files = cloud_files w\<rparr>))"

definition POST :: "platform \<Rightarrow> env \<Rightarrow> request \<Rightarrow> world \<Rightarrow> outcome" where
  "POST plat e req w =
     (let h = req_origin req
      in if (case h of None \<Rightarrow> True | Some x \<Rightarrow> x = [] \<or> x \<notin> set (ORIGINS e)) then
           \<lparr>reply = Inr (forbidden e h), fetched = [], files = cloud_files w\<rparr>
         else POST_allowed plat e req w)"

section \<open>The image route\<close>

text \<open>
  \<open>ctx.params.key\<close> is missing, one string or the list of the path segments. The stored
  content type is used unless it is empty.
\<close>

datatype route_param = Missing | One string | Segments "string list"

definition image_GET :: "route_param \<Rightarrow> store option \<Rightarrow> exn + response" where
  "image_GET raw binding =
     (let parts = (case raw of
                     Segments xs \<Rightarrow> xs
                   | One x \<Rightarrow> if x = [] then [] else [x]
                   | Missing \<Rightarrow> []);
          key = join ''/'' parts
      in if key = [] then Inr \<lparr>status = 400, body = Text ''Bad Request'', headers = []\<rparr>
         else
           (case binding of
              None \<Rightarrow> Inl (TypeError ''Cannot read properties of undefined (reading get)'')
            | Some b \<Rightarrow>
                (case bucket_get b key of
                   None \<Rightarrow> Inr \<lparr>status = 404, body = Text ''Not found'', headers = []\<rparr>
                 | Some (bytes, contentType) \<Rightarrow>
                     Inr \<lparr>status = 200, body = Bytes bytes,
                          headers =
                            [(''content-type'', if contentType = [] then ''image/webp'' else contentType),
                             (''cache-control'', ''public, max-age=31536000, immutable'')]\<rparr>)))"

section \<open>Sample values of the built-ins\<close>

text \<open>
  To evaluate the handlers on concrete requests, the built-ins are given by their values on
  the few arguments that occur: \<open>new URL("httpbin.org")\<close> throws, \<open>new URL("httpx://foo")\<close>
  has protocol \<open>httpx:\<close>, \<open>Number("50")\<close> is 50, \<open>Number("")\<close> is 0, and so on.
\<close>

definition sample_urls :: "(string \<times> url) list" where
  "sample_urls =
     [(''https://example.com'',
         \<lparr>u_scheme = ''https'', u_host = ''example.com'', u_pathname = ''/'', u_search = []\<rparr>),
      (''http://example.com/a/b?x=1'',
         \<lparr>u_scheme = ''http'', u_host = ''example.com'', u_pathname = ''/a/b'',
          u_search = [(''x'', ''1'')]\<rparr>),
      (''https://worker.test'',
         \<lparr>u_scheme = ''https'', u_host = ''worker.test'', u_pathname = ''/'', u_search = []\<rparr>),
      (''httpx://foo'',
         \<lparr>u_scheme = ''httpx'', u_host = ''foo'', u_pathname = [], u_search = []\<rparr>)]"

definition sample_numbers :: "(string \<times> jsnum) list" where
  "sample_numbers = [([], Fin 0), (''50'', Fin 50), (''3'', Fin 3), (''2'', Fin 2)]"

definition sample_platform :: platform where
  "sample_platform =
     \<lparr>url_parse = map_of sample_urls,
      to_number = (\<lambda>s. case map_of sample_numbers s of Some n \<Rightarrow> n | None \<Rightarrow> NaN),
      num_to_string = (\<lambda>n. if n = Fin 6 then ''6'' else if n = Fin 12 then ''12'' else ''NaN''),
      base64_decode = (\<lambda>s. if s = ''QUJD'' then Some [65, 66, 67] else Some [])\<rparr>"

definition sample_env :: env where
  "sample_env =
     [(''CF_WORKER_URL'', ''https://worker.test''), (''CF_WORKER_TOKEN'', ''secret''),
      (''ALLOWED_ORIGINS'', ''https://app.test, https://other.test''),
      (''NEXT_PUBLIC_BASE_PATH'', ''/ncp'')]"

definition sample_request :: "string option \<Rightarrow> (string \<times> string) list \<Rightarrow> request" where
  "sample_request h q =
     \<lparr>req_origin = h, req_search = q, req_host = ''ncp.test'', req_fwd_proto = None,
      req_fwd_host = None, req_json = Inl (SyntaxError ''Unexpected end of JSON input'')\<rparr>"

definition sample_ctx :: "bool \<Rightarrow> ctx" where
  "sample_ctx b64 =
     \<lparr>jobId = ''job'', siteOrigin = ''https://ncp.test'', basePath = ''/ncp'', absolute = False,
      includeB64 = b64\<rparr>"

definition sample_sections :: "json list" where
  "sample_sections =
     [JObj [(''image'', JStr ''data:image/jpeg;base64,QUJD''), (''role'', JStr ''hero'')],
      JObj [(''id'', JStr ''nav''), (''images'', JArr [JStr ''data:image/jpeg;base64,QUJD'', JNull])]]"


definition sample_world :: "json \<Rightarrow> world" where
  "sample_world payload =
     \<lparr>upstream = (\<lambda>r. Inr \<lparr>w_status = 200, w_text = [], w_json = Inr payload\<rparr>),
      cloud_files = Some Map.empty, uuid = ''job'', completion = (\<lambda>st. 0)\<rparr>"

section \<open>The pool computes the map, whatever the order\<close>






declare run.simps [simp del]

lemma runner_step_length [simp]:
  "length (runners (runner_step items worker k st)) = length (runners st)"
  by (simp add: runner_step_def Let_def split: runner.splits sum.splits prod.splits list.splits)



















section \<open>At most N uploads in flight\<close>









section \<open>The output of the persister\<close>

lemma tiled_section_obj: "\<exists>ps out. tiled_section plat c s idx imgs = (ps, JObj out)"
  by (simp add: tiled_section_def Let_def split: prod.split option.split)

lemma single_section_obj: "\<exists>ps out. single_section plat c s idx bytes = (ps, JObj out)"
  by (simp add: single_section_def Let_def split: option.split)

lemma bare_section_obj: "\<exists>out. bare_section plat c s = JObj out"
  by (simp add: bare_section_def)

lemma section_worker_total:
  assumes "s \<noteq> JNull"
  shows "\<exists>ps out. section_worker plat c s idx = Inr (ps, JObj out)"
proof (cases "nonempty_array (field s ''images'')")
  case (Some imgs)
  with assms tiled_section_obj [of plat c s idx imgs] show ?thesis
    by (auto simp: section_worker_def get_prop_def)
next
  case None
  show ?thesis
  proof (cases "safeDataUrlToBytes plat (field s ''image'')")
    case (Some bytes)
    with None assms single_section_obj [of plat c s idx bytes] show ?thesis
      by (auto simp: section_worker_def get_prop_def)
  next
    case n: None
    with None assms bare_section_obj [of plat c s] show ?thesis
      by (auto simp: section_worker_def get_prop_def)
  qed
qed

lemma section_worker_value:
  assumes "s \<noteq> JNull"
  shows "value_of (section_worker plat c s idx) \<noteq> None"
  using section_worker_total [OF assms, of plat c idx] by auto

lemma clamp_Fin:
  assumes "clamp n (Fin lo) (Fin hi) = Fin q"
  shows "lo \<le> q \<and> q \<le> max lo hi"
  using assms by (cases n) (auto simp: clamp_def)

lemma clamp_Fin_cases: "clamp n (Fin lo) (Fin hi) = NaN \<or> (\<exists>q. clamp n (Fin lo) (Fin hi) = Fin q)"
  by (cases n) (auto simp: clamp_def)

lemma clamp_one_upper:
  assumes "clamp n (Fin 1) (Fin h) = Fin q" and "1 \<le> h"
  shows "1 \<le> q \<and> q \<le> h"
  using clamp_Fin [OF assms(1)] assms(2) by simp

lemma workerMax_range:
  assumes "workerMax plat e req = Fin w"
  shows "1 \<le> w \<and> w \<le> 12"
  using clamp_Fin [OF assms [unfolded workerMax_def]] by simp

lemma workerMax_cases:
  "workerMax plat e req = NaN \<or> (\<exists>w. workerMax plat e req = Fin w \<and> 1 \<le> w \<and> w \<le> 12)"
  using clamp_Fin_cases [of _ 1 12] workerMax_range unfolding workerMax_def by metis

lemma maxSections_range:
  assumes "maxSections plat e req = Fin q"
  shows "\<exists>w. workerMax plat e req = Fin w \<and> 1 \<le> q \<and> q \<le> w \<and> w \<le> 12"
proof -
  from workerMax_cases [of plat e req] show ?thesis
  proof
    assume "workerMax plat e req = NaN"
    with assms show ?thesis by (simp add: maxSections_def clamp_def)
  next
    assume "\<exists>w. workerMax plat e req = Fin w \<and> 1 \<le> w \<and> w \<le> 12"
    then obtain w where w: "workerMax plat e req = Fin w" "1 \<le> w" "w \<le> 12" by blast
    from assms obtain hard where "clamp hard (Fin 1) (workerMax plat e req) = Fin q"
      unfolding maxSections_def by blast
    then have "clamp hard (Fin 1) (Fin w) = Fin q"
      by (simp only: w(1))
    from clamp_one_upper [OF this w(2)] w show ?thesis by simp
  qed
qed







section \<open>What a section becomes\<close>

lemma copy_string_keys: "set (map fst (copy_string plat s k)) \<subseteq> {k}"
  by (auto simp: copy_string_def split: option.split)

lemma cleanSectionMeta_keys:
  "set (map fst (cleanSectionMeta plat s)) \<subseteq> {''id'', ''role'', ''bbox'', ''confidence'', ''label''}"
  using copy_string_keys [of plat s "''id''"] copy_string_keys [of plat s "''role''"]
    copy_string_keys [of plat s "''label''"]
  by (auto simp: cleanSectionMeta_def split: option.split)

lemma tiles_loop_urls:
  "snd (tiles_loop plat c sid t imgs) =
     map (\<lambda>(k, img). buildUrl c (tile_key c sid k))
       (filter (\<lambda>(k, img). safeDataUrlToBytes plat (Some img) \<noteq> None) (enumerate t imgs))"
proof (induction imgs arbitrary: t)
  case Nil
  show ?case by simp
next
  case (Cons a imgs)
  show ?case using Cons.IH [of "Suc t"]
    by (cases "tiles_loop plat c sid (Suc t) imgs") (auto split: option.split)
qed

lemma tiles_loop_puts:
  "map fst (fst (tiles_loop plat c sid t imgs)) =
     map (\<lambda>(k, img). tile_key c sid k)
       (filter (\<lambda>(k, img). safeDataUrlToBytes plat (Some img) \<noteq> None) (enumerate t imgs))"
proof (induction imgs arbitrary: t)
  case Nil
  show ?case by simp
next
  case (Cons a imgs)
  show ?case using Cons.IH [of "Suc t"]
    by (cases "tiles_loop plat c sid (Suc t) imgs") (auto split: option.split)
qed

lemma tiled_section_shape:
  "\<exists>ps rest.
     tiled_section plat c s idx imgs =
       (ps, JObj (cleanSectionMeta plat s @
          (''images'', JArr (map JStr (snd (tiles_loop plat c (safeId plat s idx) 0 imgs)))) # rest)) \<and>
     set (map fst rest) \<subseteq> (if includeB64 c then {''images_b64''} else {})"
  by (cases "tiles_loop plat c (safeId plat s idx) 0 imgs")
    (simp add: tiled_section_def Let_def split: option.split)

lemma single_section_shape:
  "\<exists>ps url rest.
     single_section plat c s idx bytes =
       (ps, JObj (cleanSectionMeta plat s @ (''image'', JStr url) # rest)) \<and>
     set (map fst rest) \<subseteq> (if includeB64 c then {''image_b64''} else {})"
  by (simp add: single_section_def Let_def split: option.split)

lemma bare_section_shape:
  "\<exists>rest.
     bare_section plat c s = JObj (cleanSectionMeta plat s @ rest) \<and>
     set (map fst rest) \<subseteq> (if includeB64 c then {''image_b64'', ''images_b64''} else {})"
  by (auto simp: bare_section_def split: option.split)


lemma as_array_Some: "as_array x = Some xs \<longleftrightarrow> x = Some (JArr xs)"
  by (cases x; cases "the x") (simp_all add: as_array_def)

lemma as_number_Some: "as_number x = Some n \<longleftrightarrow> x = Some (JNum n)"
  by (cases x; cases "the x") (simp_all add: as_number_def)

lemma as_string_Some: "as_string x = Some t \<longleftrightarrow> x = Some (JStr t)"
  by (cases x; cases "the x") (simp_all add: as_string_def)

lemma map_of_copy_string:
  "map_of (copy_string plat s k) k' =
     (if k' = k then
        (case field s k of
           Some v \<Rightarrow> if truthy (Some v) then Some (JStr (js_String plat v)) else None
         | None \<Rightarrow> None)
      else None)"
  by (simp add: copy_string_def split: option.split)

lemma map_of_meta_bbox:
  assumes "map_of (cleanSectionMeta plat s) ''bbox'' = Some v"
  shows "\<exists>xs. field s ''bbox'' = Some (JArr xs) \<and> v = JArr (take 4 xs)"
proof (cases "is_object s")
  case True
  with assms have "(case as_array (field s ''bbox'') of
      Some xs \<Rightarrow> Some (JArr (take 4 xs)) | None \<Rightarrow> None) = Some v"
    by (simp add: cleanSectionMeta_def map_add_def map_of_copy_string
        split: option.splits) (metis option.inject)+
  then show ?thesis by (auto simp: as_array_Some split: option.splits)
next
  case False
  with assms show ?thesis by (simp add: cleanSectionMeta_def)
qed

lemma map_of_meta_confidence:
  assumes "map_of (cleanSectionMeta plat s) ''confidence'' = Some v"
  shows "\<exists>n. field s ''confidence'' = Some (JNum n) \<and> v = JNum n"
proof (cases "is_object s")
  case True
  with assms have "(case as_number (field s ''confidence'') of
      Some n \<Rightarrow> Some (JNum n) | None \<Rightarrow> None) = Some v"
    by (simp add: cleanSectionMeta_def map_add_def map_of_copy_string
        split: option.splits) (metis option.inject)+
  then show ?thesis by (auto simp: as_number_Some split: option.splits)
next
  case False
  with assms show ?thesis by (simp add: cleanSectionMeta_def)
qed

lemma map_of_meta_string:
  assumes "map_of (cleanSectionMeta plat s) k = Some v" and "k \<in> {''id'', ''role'', ''label''}"
  shows "\<exists>x. field s k = Some x \<and> truthy (Some x) \<and> v = JStr (js_String plat x)"
proof (cases "is_object s")
  case True
  with assms have "(case field s k of
      Some x \<Rightarrow> if truthy (Some x) then Some (JStr (js_String plat x)) else None
    | None \<Rightarrow> None) = Some v"
    by (auto simp: cleanSectionMeta_def map_add_def map_of_copy_string
        split: option.splits if_splits)
  then show ?thesis by (auto split: option.splits if_splits)
next
  case False
  with assms show ?thesis by (simp add: cleanSectionMeta_def)
qed


lemma keys_cons_subset:
  assumes "set (map fst rest) \<subseteq> A" and "k \<in> B" and "A \<subseteq> B"
  shows "set (map fst ((k, v) # rest)) \<subseteq> B"
  using assms by auto

text \<open>
  Claim C6, as amended. Whenever the worker callback returns an output section for an
  upstream descriptor \<open>s\<close>, the output is the sanitized metadata \<open>cleanSectionMeta s\<close> followed
  by fields named \<open>image\<close> or \<open>images\<close> and, only when base64 was asked for, \<open>image_b64\<close> or
  \<open>images_b64\<close>. The metadata has no field but \<open>id\<close>, \<open>role\<close>, \<open>bbox\<close>, \<open>confidence\<close> and
  \<open>label\<close>; its \<open>bbox\<close> is the first four elements at most of the upstream \<open>bbox\<close> array, copied
  as they are; its \<open>confidence\<close> is the upstream \<open>confidence\<close> when that is a number; and
  \<open>id\<close>, \<open>role\<close> and \<open>label\<close> are the strings of the upstream values when those are truthy.
\<close>

theorem section_output_whitelist:
  assumes "section_worker plat c s idx = Inr (ps, out)"
  shows "\<exists>rest.
           out = JObj (cleanSectionMeta plat s @ rest) \<and>
           set (map fst rest) \<subseteq>
             {''image'', ''images''} \<union> (if includeB64 c then {''image_b64'', ''images_b64''} else {}) \<and>
           set (map fst (cleanSectionMeta plat s)) \<subseteq>
             {''id'', ''role'', ''bbox'', ''confidence'', ''label''} \<and>
           (\<forall>v. map_of (cleanSectionMeta plat s) ''bbox'' = Some v \<longrightarrow>
              (\<exists>xs. field s ''bbox'' = Some (JArr xs) \<and> v = JArr (take 4 xs))) \<and>
           (\<forall>v. map_of (cleanSectionMeta plat s) ''confidence'' = Some v \<longrightarrow>
              (\<exists>n. field s ''confidence'' = Some (JNum n) \<and> v = JNum n)) \<and>
           (\<forall>k v. k \<in> {''id'', ''role'', ''label''} \<longrightarrow>
              map_of (cleanSectionMeta plat s) k = Some v \<longrightarrow>
              (\<exists>x. field s k = Some x \<and> truthy (Some x) \<and> v = JStr (js_String plat x)))"
proof -
  have shape: "\<exists>rest. out = JObj (cleanSectionMeta plat s @ rest) \<and>
      set (map fst rest) \<subseteq>
        {''image'', ''images''} \<union> (if includeB64 c then {''image_b64'', ''images_b64''} else {})"
  proof (cases "nonempty_array (field s ''images'')")
    case (Some imgs)
    with assms have t: "tiled_section plat c s idx imgs = (ps, out)"
      by (simp add: section_worker_def split: sum.splits)
    from tiled_section_shape [of plat c s idx imgs] obtain ps' v rest
      where eq: "tiled_section plat c s idx imgs =
          (ps', JObj (cleanSectionMeta plat s @ (''images'', v) # rest))"
        and sub: "set (map fst rest) \<subseteq> (if includeB64 c then {''images_b64''} else {})"
      by blast
    have "set (map fst ((''images'', v) # rest)) \<subseteq>
        {''image'', ''images''} \<union> (if includeB64 c then {''image_b64'', ''images_b64''} else {})"
      by (rule keys_cons_subset [OF sub]) simp_all
    with t eq show ?thesis by auto
  next
    case None
    show ?thesis
    proof (cases "safeDataUrlToBytes plat (field s ''image'')")
      case (Some bytes)
      with None assms have t: "single_section plat c s idx bytes = (ps, out)"
        by (simp add: section_worker_def split: sum.splits)
      from single_section_shape [of plat c s idx bytes] obtain ps' v rest
        where eq: "single_section plat c s idx bytes =
            (ps', JObj (cleanSectionMeta plat s @ (''image'', v) # rest))"
          and sub: "set (map fst rest) \<subseteq> (if includeB64 c then {''image_b64''} else {})"
        by blast
      have "set (map fst ((''image'', v) # rest)) \<subseteq>
          {''image'', ''images''} \<union> (if includeB64 c then {''image_b64'', ''images_b64''} else {})"
        by (rule keys_cons_subset [OF sub]) simp_all
      with t eq show ?thesis by auto
    next
      case n: None
      with None assms have t: "out = bare_section plat c s"
        by (simp add: section_worker_def split: sum.splits)
      from bare_section_shape [of plat c s] obtain rest
        where eq: "bare_section plat c s = JObj (cleanSectionMeta plat s @ rest)"
          and sub: "set (map fst rest) \<subseteq> (if includeB64 c then {''image_b64'', ''images_b64''} else {})"
        by blast
      from sub have "set (map fst rest) \<subseteq>
          {''image'', ''images''} \<union> (if includeB64 c then {''image_b64'', ''images_b64''} else {})"
        by (simp split: if_splits) blast
      with t eq show ?thesis by auto
    qed
  qed
  from shape cleanSectionMeta_keys [of plat s] map_of_meta_bbox [of plat s]
    map_of_meta_confidence [of plat s] map_of_meta_string [of plat s]
  show ?thesis by blast
qed

text \<open>
  The callback on the first sample section, whose single image decodes: the output has the
  role and the URL of the stored image.
\<close>

theorem section_output_whitelist_witness:
  "section_worker sample_platform (sample_ctx False) (sample_sections ! 0) 0 =
     Inr ([(''jobs/job/section_0.jpg'', [65, 66, 67], ''image/jpeg'')],
          JObj [(''role'', JStr ''hero''),
                (''image'', JStr ''/ncp/api/images/jobs/job/section_0.jpg'')]) \<and>
   (\<exists>rest.
      JObj [(''role'', JStr ''hero''), (''image'', JStr ''/ncp/api/images/jobs/job/section_0.jpg'')] =
        JObj (cleanSectionMeta sample_platform (sample_sections ! 0) @ rest) \<and>
      set (map fst rest) \<subseteq>
        {''image'', ''images''} \<union>
        (if includeB64 (sample_ctx False) then {''image_b64'', ''images_b64''} else {}))"
proof -
  have ev: "section_worker sample_platform (sample_ctx False) (sample_sections ! 0) 0 =
     Inr ([(''jobs/job/section_0.jpg'', [65, 66, 67], ''image/jpeg'')],
          JObj [(''role'', JStr ''hero''),
                (''image'', JStr ''/ncp/api/images/jobs/job/section_0.jpg'')])"
    by (simp add: section_worker_def get_prop_def nonempty_array_def single_section_def
        cleanSectionMeta_def copy_string_def as_array_def as_number_def sample_ctx_def
        sample_sections_def sample_platform_def safeId_def buildUrl_def dec_of_nat.simps Let_def)
  from section_output_whitelist [OF ev] ev show ?thesis by blast
qed

text \<open>
  Claim C6 as stated fails where it says that \<open>bbox\<close> is truncated to exactly four numbers:
  an upstream \<open>bbox\<close> of one string comes out as it is.
\<close>

theorem bbox_not_four_numbers:
  "section_worker sample_platform (sample_ctx False) (JObj [(''bbox'', JArr [JStr ''a''])]) 0 =
     Inr ([], JObj [(''bbox'', JArr [JStr ''a''])])"
  by (simp add: section_worker_def get_prop_def nonempty_array_def bare_section_def
      cleanSectionMeta_def copy_string_def as_array_def as_number_def sample_ctx_def)

text \<open>
  Claim C2, as amended. The worker callback throws for no section but \<open>null\<close>, whatever its
  image payload. For a section with a non-empty \<open>images\<close> array, the output \<open>images\<close> is the
  list of the URLs of the tiles that decode, in order and under the tile numbers they had in
  the input, and exactly those tiles are uploaded. For a section without a non-empty \<open>images\<close>
  array whose single image does not decode, nothing is uploaded and the output is the
  sanitized metadata followed, only when base64 was asked for, by \<open>image_b64\<close> or
  \<open>images_b64\<close>; it has no \<open>image\<close> and no \<open>images\<close> field.
\<close>

theorem malformed_images_recovered:
  assumes "s \<noteq> JNull"
  shows "(\<exists>ps out. section_worker plat c s idx = Inr (ps, out)) \<and>
         (\<forall>imgs. nonempty_array (field s ''images'') = Some imgs \<longrightarrow>
            (\<exists>ps rest.
               section_worker plat c s idx =
                 Inr (ps, JObj (cleanSectionMeta plat s @
                   (''images'', JArr (map JStr
                      (map (\<lambda>(k, img). buildUrl c (tile_key c (safeId plat s idx) k))
                         (filter (\<lambda>(k, img). safeDataUrlToBytes plat (Some img) \<noteq> None)
                            (enumerate 0 imgs))))) # rest)) \<and>
               set (map fst rest) \<subseteq> (if includeB64 c then {''images_b64''} else {}) \<and>
               map fst ps =
                 map (\<lambda>(k, img). tile_key c (safeId plat s idx) k)
                   (filter (\<lambda>(k, img). safeDataUrlToBytes plat (Some img) \<noteq> None)
                      (enumerate 0 imgs)))) \<and>
         (nonempty_array (field s ''images'') = None \<longrightarrow>
          safeDataUrlToBytes plat (field s ''image'') = None \<longrightarrow>
            (\<exists>rest.
               section_worker plat c s idx = Inr ([], JObj (cleanSectionMeta plat s @ rest)) \<and>
               set (map fst rest) \<subseteq>
                 (if includeB64 c then {''image_b64'', ''images_b64''} else {}))) \<and>
         set (map fst (cleanSectionMeta plat s)) \<subseteq>
           {''id'', ''role'', ''bbox'', ''confidence'', ''label''}"
proof (intro conjI allI impI)
  from section_worker_total [OF assms, of plat c idx]
  show "\<exists>ps out. section_worker plat c s idx = Inr (ps, out)" by blast
next
  fix imgs assume imgs: "nonempty_array (field s ''images'') = Some imgs"
  from tiled_section_shape [of plat c s idx imgs] obtain ps rest
    where eq: "tiled_section plat c s idx imgs =
        (ps, JObj (cleanSectionMeta plat s @
          (''images'', JArr (map JStr (snd (tiles_loop plat c (safeId plat s idx) 0 imgs)))) # rest))"
      and sub: "set (map fst rest) \<subseteq> (if includeB64 c then {''images_b64''} else {})"
    by blast
  have "ps = fst (tiles_loop plat c (safeId plat s idx) 0 imgs)"
    using eq by (cases "tiles_loop plat c (safeId plat s idx) 0 imgs")
      (simp add: tiled_section_def Let_def split: option.splits if_splits)
  then have puts: "map fst ps =
      map (\<lambda>(k, img). tile_key c (safeId plat s idx) k)
        (filter (\<lambda>(k, img). safeDataUrlToBytes plat (Some img) \<noteq> None) (enumerate 0 imgs))"
    by (simp only: tiles_loop_puts)
  have "section_worker plat c s idx = Inr (tiled_section plat c s idx imgs)"
    using assms imgs by (simp add: section_worker_def get_prop_def)
  with eq sub puts
  show "\<exists>ps rest.
      section_worker plat c s idx =
        Inr (ps, JObj (cleanSectionMeta plat s @
          (''images'', JArr (map JStr
             (map (\<lambda>(k, img). buildUrl c (tile_key c (safeId plat s idx) k))
                (filter (\<lambda>(k, img). safeDataUrlToBytes plat (Some img) \<noteq> None)
                   (enumerate 0 imgs))))) # rest)) \<and>
      set (map fst rest) \<subseteq> (if includeB64 c then {''images_b64''} else {}) \<and>
      map fst ps =
        map (\<lambda>(k, img). tile_key c (safeId plat s idx) k)
          (filter (\<lambda>(k, img). safeDataUrlToBytes plat (Some img) \<noteq> None)
             (enumerate 0 imgs))"
    by (simp only: tiles_loop_urls) blast
next
  assume "nonempty_array (field s ''images'') = None"
    and "safeDataUrlToBytes plat (field s ''image'') = None"
  then have "section_worker plat c s idx = Inr ([], bare_section plat c s)"
    using assms by (simp add: section_worker_def get_prop_def)
  with bare_section_shape [of plat c s]
  show "\<exists>rest.
      section_worker plat c s idx = Inr ([], JObj (cleanSectionMeta plat s @ rest)) \<and>
      set (map fst rest) \<subseteq> (if includeB64 c then {''image_b64'', ''images_b64''} else {})"
    by auto
next
  show "set (map fst (cleanSectionMeta plat s)) \<subseteq>
      {''id'', ''role'', ''bbox'', ''confidence'', ''label''}"
    by (rule cleanSectionMeta_keys)
qed

text \<open>
  The callback on the second sample section, whose second tile is not a data URL: one tile
  is stored and listed.
\<close>

theorem malformed_images_recovered_witness:
  "sample_sections ! 1 \<noteq> JNull \<and>
   nonempty_array (field (sample_sections ! 1) ''images'') =
     Some [JStr ''data:image/jpeg;base64,QUJD'', JNull] \<and>
   section_worker sample_platform (sample_ctx False) (sample_sections ! 1) 1 =
     Inr ([(''jobs/job/nav/tile_00.jpg'', [65, 66, 67], ''image/jpeg'')],
          JObj [(''id'', JStr ''nav''),
                (''images'', JArr [JStr ''/ncp/api/images/jobs/job/nav/tile_00.jpg''])]) \<and>
   (\<exists>ps rest.
      section_worker sample_platform (sample_ctx False) (sample_sections ! 1) 1 =
        Inr (ps, JObj (cleanSectionMeta sample_platform (sample_sections ! 1) @
          (''images'', JArr (map JStr
             (map (\<lambda>(k, img). buildUrl (sample_ctx False)
                      (tile_key (sample_ctx False) (safeId sample_platform (sample_sections ! 1) 1) k))
                (filter (\<lambda>(k, img). safeDataUrlToBytes sample_platform (Some img) \<noteq> None)
                   (enumerate 0 [JStr ''data:image/jpeg;base64,QUJD'', JNull]))))) # rest)) \<and>
      set (map fst rest) \<subseteq> (if includeB64 (sample_ctx False) then {''images_b64''} else {}) \<and>
      map fst ps =
        map (\<lambda>(k, img). tile_key (sample_ctx False) (safeId sample_platform (sample_sections ! 1) 1) k)
          (filter (\<lambda>(k, img). safeDataUrlToBytes sample_platform (Some img) \<noteq> None)
             (enumerate 0 [JStr ''data:image/jpeg;base64,QUJD'', JNull])))"
proof -
  have nn: "sample_sections ! 1 \<noteq> JNull"
    by (simp add: sample_sections_def)
  have imgs: "nonempty_array (field (sample_sections ! 1) ''images'') =
      Some [JStr ''data:image/jpeg;base64,QUJD'', JNull]"
    by (simp add: sample_sections_def nonempty_array_def)
  have ev: "section_worker sample_platform (sample_ctx False) (sample_sections ! 1) 1 =
     Inr ([(''jobs/job/nav/tile_00.jpg'', [65, 66, 67], ''image/jpeg'')],
          JObj [(''id'', JStr ''nav''),
                (''images'', JArr [JStr ''/ncp/api/images/jobs/job/nav/tile_00.jpg''])])"
    by (simp add: section_worker_def get_prop_def nonempty_array_def tiled_section_def
        cleanSectionMeta_def copy_string_def as_array_def as_number_def sample_ctx_def
        sample_sections_def sample_platform_def safeId_def buildUrl_def tile_key_def
        padStart2_def dec_of_nat.simps Let_def)
  note t = malformed_images_recovered [OF nn, of sample_platform "sample_ctx False" 1]
  from t [THEN conjunct2, THEN conjunct1, rule_format, OF imgs] nn imgs ev
  show ?thesis by (intro conjI)
qed

text \<open>
  Claim C2 as stated fails where it says that a section whose single image does not decode
  is emitted with its whitelisted metadata only: with \<open>b64=1\<close> the upstream \<open>image_b64\<close> is
  passed through.
\<close>

theorem undecodable_image_keeps_base64:
  "safeDataUrlToBytes sample_platform (Some (JStr ''broken'')) = None \<and>
   section_worker sample_platform (sample_ctx True)
     (JObj [(''image'', JStr ''broken''), (''image_b64'', JStr ''QUJD'')]) 0 =
     Inr ([], JObj [(''image_b64'', JStr ''QUJD'')])"
  by (simp add: section_worker_def get_prop_def nonempty_array_def bare_section_def
      cleanSectionMeta_def copy_string_def as_array_def as_number_def as_string_def sample_ctx_def)

section \<open>The section cap and the upstream request\<close>

lemma map_of_filter_other:
  "k' \<noteq> k \<Longrightarrow> map_of (filter (\<lambda>q. fst q \<noteq> k) ps) k' = map_of ps k'"
  by (induction ps) auto

lemma map_of_sp_set: "map_of (sp_set k v ps) k' = (if k' = k then Some v else map_of ps k')"
  by (induction ps) (auto simp: map_of_filter_other)

lemma last_value_Cons:
  "last_value (kv # q) k =
     (case last_value q k of Some v \<Rightarrow> Some v | None \<Rightarrow> if fst kv = k then Some (snd kv) else None)"
  by (auto simp: last_value_def split: list.splits)

lemma map_of_forward:
  assumes "k \<noteq> ''domain''"
  shows "map_of (fold (\<lambda>kv acc. if fst kv = ''domain'' then acc else sp_set (fst kv) (snd kv) acc) q acc) k =
         (case last_value q k of Some v \<Rightarrow> Some v | None \<Rightarrow> map_of acc k)"
  using assms
proof (induction q arbitrary: acc)
  case Nil
  show ?case by (simp add: last_value_def)
next
  case (Cons kv q)
  show ?case
    using Cons.IH [OF Cons.prems] Cons.prems
    by (auto simp: last_value_Cons map_of_sp_set split: option.splits)
qed

text \<open>The value of \<open>max\<close> when the loop over the request's query has run.\<close>

lemma worker_search_max:
  "map_of (worker_search plat e req origin base) ''max'' =
     Some (let fwd = (case last_value (req_search req) ''max'' of
                        Some v \<Rightarrow> Some v | None \<Rightarrow> map_of base ''max'')
           in if str_or fwd [] = [] then num_to_string plat (workerMax plat e req)
              else str_or fwd [])"
proof -
  let ?ps = "fold (\<lambda>kv acc. if fst kv = ''domain'' then acc else sp_set (fst kv) (snd kv) acc)
                 (req_search req) (sp_set ''url'' origin base)"
  have m: "map_of ?ps ''max'' =
      (case last_value (req_search req) ''max'' of Some v \<Rightarrow> Some v | None \<Rightarrow> map_of base ''max'')"
    by (subst map_of_forward) (simp_all add: map_of_sp_set split: option.split)
  show ?thesis
    unfolding worker_search_def Let_def m [symmetric]
    by (auto simp: map_of_sp_set str_or_def split: option.splits)
qed

lemma maxSections_cases:
  "maxSections plat e req = NaN \<or> (\<exists>q. maxSections plat e req = Fin q)"
proof -
  from workerMax_cases [of plat e req] show ?thesis
  proof
    assume "workerMax plat e req = NaN"
    then show ?thesis by (simp add: maxSections_def clamp_def)
  next
    assume "\<exists>w. workerMax plat e req = Fin w \<and> 1 \<le> w \<and> w \<le> 12"
    then obtain w where "workerMax plat e req = Fin w" by blast
    then show ?thesis using clamp_Fin_cases [of "hardCap plat e req" 1 w]
      by (simp add: maxSections_def)
  qed
qed

lemma maxSections_value:
  assumes "workerMax plat e req = Fin w" and "hardCap plat e req = Fin h"
  shows "maxSections plat e req = Fin (max 1 (min w h))"
  using assms by (simp add: maxSections_def clamp_def)

lemma slice0_nonneg:
  assumes "0 \<le> q"
  shows "slice0 xs (Fin q) = take (nat \<lfloor>q\<rfloor>) xs"
proof -
  from assms have "0 \<le> \<lfloor>q\<rfloor>" by simp
  then have "\<not> trunc q < 0" and "trunc q = \<lfloor>q\<rfloor>"
    using assms by (simp_all add: trunc_def)
  then show ?thesis by (simp add: Let_def)
qed

lemma section_list_length:
  assumes "maxSections plat e req = Fin q"
  shows "int (length (section_list payload (maxSections plat e req))) \<le> \<lfloor>q\<rfloor>"
proof -
  from maxSections_range [OF assms] have "1 \<le> q" by blast
  then have q: "0 \<le> q" and f: "0 \<le> \<lfloor>q\<rfloor>" by simp_all
  have "int (length (slice0 xs (Fin q))) \<le> \<lfloor>q\<rfloor>" for xs :: "json list"
  proof -
    have "length (take (nat \<lfloor>q\<rfloor>) xs) \<le> nat \<lfloor>q\<rfloor>" by simp
    then have "int (length (take (nat \<lfloor>q\<rfloor>) xs)) \<le> int (nat \<lfloor>q\<rfloor>)"
      by (simp only: of_nat_le_iff)
    also have "int (nat \<lfloor>q\<rfloor>) = \<lfloor>q\<rfloor>" by (rule nat_0_le [OF f])
    finally show ?thesis by (simp only: slice0_nonneg [OF q])
  qed
  then show ?thesis using f
    by (cases "field payload ''sections''"; cases "the (field payload ''sections'')")
      (simp_all add: section_list_def assms del: slice0.simps)
qed

lemma sample_workerMax_50:
  "workerMax sample_platform sample_env
     (sample_request None [(''domain'', ''example.com''), (''max'', ''50'')]) = Fin 12"
  by (simp add: workerMax_def qMax_def clamp_def sample_platform_def sample_numbers_def
      str_or_def sample_request_def)

lemma sample_hardCap:
  "hardCap sample_platform sample_env req = Fin 6"
  by (simp add: hardCap_def DEFAULT_MAX_SECTIONS_def DEFAULT_WORKER_MAX_def getenv_def
      sample_env_def)

text \<open>
  Claim C3, as amended. \<open>workerMax\<close>, the caller's \<open>max\<close> (or the configured default when it is
  absent, zero or not a number) clamped, lies in 1..12 whenever it is a number. The effective
  section cap \<open>maxSections\<close> is the smaller of \<open>workerMax\<close> and the hard cap, but never below 1;
  it is a number between 1 and \<open>workerMax\<close>, or \<open>NaN\<close>. The number of sections persisted is at
  most the cap (none when it is \<open>NaN\<close>). The \<open>max\<close> sent upstream is not the cap: it is the
  caller's own \<open>max\<close> parameter as written (the last one, or the one of the worker's base URL)
  when that is not empty, and the string of \<open>workerMax\<close> otherwise.
\<close>

theorem section_cap_and_upstream_max:
  "workerMax plat e req =
     (if num_truthy (qMax plat req) then clamp (qMax plat req) (Fin 1) (Fin 12)
      else clamp (DEFAULT_WORKER_MAX plat e) (Fin 1) (Fin 12)) \<and>
   (\<forall>w. workerMax plat e req = Fin w \<longrightarrow> 1 \<le> w \<and> w \<le> 12) \<and>
   (\<forall>w h. workerMax plat e req = Fin w \<longrightarrow> hardCap plat e req = Fin h \<longrightarrow>
      maxSections plat e req = Fin (max 1 (min w h))) \<and>
   (maxSections plat e req = NaN \<or> (\<exists>q. maxSections plat e req = Fin q)) \<and>
   (\<forall>q. maxSections plat e req = Fin q \<longrightarrow>
      (\<exists>w. workerMax plat e req = Fin w \<and> 1 \<le> q \<and> q \<le> w) \<and>
      int (length (section_list payload (maxSections plat e req))) \<le> \<lfloor>q\<rfloor>) \<and>
   (maxSections plat e req = NaN \<longrightarrow> section_list payload (maxSections plat e req) = []) \<and>
   map_of (worker_search plat e req origin base) ''max'' =
     Some (let fwd = (case last_value (req_search req) ''max'' of
                        Some v \<Rightarrow> Some v | None \<Rightarrow> map_of base ''max'')
           in if str_or fwd [] = [] then num_to_string plat (workerMax plat e req)
              else str_or fwd [])"
proof (intro conjI allI impI)
  show "workerMax plat e req =
     (if num_truthy (qMax plat req) then clamp (qMax plat req) (Fin 1) (Fin 12)
      else clamp (DEFAULT_WORKER_MAX plat e) (Fin 1) (Fin 12))"
    by (simp add: workerMax_def)
next
  fix w assume "workerMax plat e req = Fin w"
  from workerMax_range [OF this] show "1 \<le> w" and "w \<le> 12" by simp_all
next
  fix w h assume "workerMax plat e req = Fin w" and "hardCap plat e req = Fin h"
  then show "maxSections plat e req = Fin (max 1 (min w h))" by (rule maxSections_value)
next
  show "maxSections plat e req = NaN \<or> (\<exists>q. maxSections plat e req = Fin q)"
    by (rule maxSections_cases)
next
  fix q assume q: "maxSections plat e req = Fin q"
  from maxSections_range [OF q]
  show "\<exists>w. workerMax plat e req = Fin w \<and> 1 \<le> q \<and> q \<le> w" by blast
  from section_list_length [OF q]
  show "int (length (section_list payload (maxSections plat e req))) \<le> \<lfloor>q\<rfloor>" .
next
  assume "maxSections plat e req = NaN"
  then show "section_list payload (maxSections plat e req) = []"
    by (cases "field payload ''sections''"; cases "the (field payload ''sections'')")
      (simp_all add: section_list_def)
next
  show "map_of (worker_search plat e req origin base) ''max'' =
     Some (let fwd = (case last_value (req_search req) ''max'' of
                        Some v \<Rightarrow> Some v | None \<Rightarrow> map_of base ''max'')
           in if str_or fwd [] = [] then num_to_string plat (workerMax plat e req)
              else str_or fwd [])"
    by (rule worker_search_max)
qed

text \<open>
  A request with \<open>max=50\<close> under the default configuration: \<open>workerMax\<close> is 12, the hard cap
  6 and the cap 6.
\<close>

theorem section_cap_and_upstream_max_witness:
  "workerMax sample_platform sample_env
     (sample_request None [(''domain'', ''example.com''), (''max'', ''50'')]) = Fin 12 \<and>
   hardCap sample_platform sample_env
     (sample_request None [(''domain'', ''example.com''), (''max'', ''50'')]) = Fin 6 \<and>
   maxSections sample_platform sample_env
     (sample_request None [(''domain'', ''example.com''), (''max'', ''50'')]) =
     Fin (max 1 (min 12 6)) \<and>
   (1::rat) \<le> 12 \<and> (12::rat) \<le> 12"
proof -
  let ?req = "sample_request None [(''domain'', ''example.com''), (''max'', ''50'')]"
  note t = section_cap_and_upstream_max [of sample_platform sample_env ?req]
  note a = t [THEN conjunct2, THEN conjunct1, rule_format, OF sample_workerMax_50]
  note b = t [THEN conjunct2, THEN conjunct2, THEN conjunct1, rule_format,
      OF sample_workerMax_50 sample_hardCap]
  from a b sample_workerMax_50 sample_hardCap show ?thesis by (intro conjI) simp_all
qed

text \<open>
  Claim C3 as stated fails where it says that the cap is the \<open>max\<close> sent upstream: for that
  request the cap is 6 and the upstream request carries \<open>max=50\<close>.
\<close>

theorem upstream_max_is_not_the_cap:
  "maxSections sample_platform sample_env
     (sample_request None [(''domain'', ''example.com''), (''max'', ''50'')]) = Fin 6 \<and>
   map_of (worker_search sample_platform sample_env
             (sample_request None [(''domain'', ''example.com''), (''max'', ''50'')])
             ''https://example.com'' []) ''max'' = Some ''50''"
proof -
  let ?req = "sample_request None [(''domain'', ''example.com''), (''max'', ''50'')]"
  have "maxSections sample_platform sample_env ?req = Fin 6"
    by (simp add: maxSections_def sample_workerMax_50 sample_hardCap clamp_def)
  moreover have "map_of (worker_search sample_platform sample_env ?req ''https://example.com'' [])
      ''max'' = Some ''50''"
    by (simp add: worker_search_def sample_request_def str_or_def Let_def)
  ultimately show ?thesis by simp
qed

section \<open>The origin normalizer\<close>






section \<open>The handlers of the scrape route\<close>

lemma GET_norm_failure:
  assumes "map_of (req_search req) ''ping'' \<noteq> Some ''1''"
    and "map_of (req_search req) ''domain'' = Some q" and "q \<noteq> []"
    and "norm_url plat q = Inl ex"
  shows "GET plat e req w = \<lparr>reply = Inl ex, fetched = [], files = cloud_files w\<rparr>"
  using assms by (simp add: GET_def)

lemma POST_norm_failure:
  assumes "req_origin req = Some x" and "x \<in> set (ORIGINS e)"
    and "req_json req = Inr (JObj [(''domain'', JStr q)])" and "q \<noteq> []"
    and "norm_url plat q = Inl ex"
  shows "POST plat e req w = \<lparr>reply = Inl ex, fetched = [], files = cloud_files w\<rparr>"
proof -
  have "x \<noteq> []" using assms(2) by (auto simp: ORIGINS_def)
  then show ?thesis using assms
    by (simp add: POST_def POST_allowed_def body_domain_def get_prop_def)
qed

lemma sample_ORIGINS: "ORIGINS sample_env = [''https://app.test'', ''https://other.test'']"
  by (simp add: ORIGINS_def getenv_def sample_env_def trim_def is_space_def)

lemma sample_norm_httpx: "norm_url sample_platform ''httpx://foo'' = Inl (Error ''bad protocol'')"
  by (simp add: norm_arg_def norm_url_def sample_platform_def sample_urls_def protocol_def)

text \<open>
  Claim C4 does not hold of the code. \<open>GET\<close> and \<open>POST\<close> evaluate \<open>norm\<close> before they enter
  \<open>handle\<close>, outside its \<open>try\<close>: for the domain \<open>httpx://foo\<close> the error \<open>bad protocol\<close> escapes
  the handler, which returns no response, and so no response of status 400.
\<close>

theorem invalid_domain_escapes_handler:
  "reply (GET sample_platform sample_env
            (sample_request None [(''domain'', ''httpx://foo'')]) (sample_world JNull)) =
     Inl (Error ''bad protocol'') \<and>
   reply (POST sample_platform sample_env
            ((sample_request (Some ''https://app.test'') [])
               \<lparr>req_json := Inr (JObj [(''domain'', JStr ''httpx://foo'')])\<rparr>)
            (sample_world JNull)) =
     Inl (Error ''bad protocol'')"
proof -
  have g: "GET sample_platform sample_env
      (sample_request None [(''domain'', ''httpx://foo'')]) (sample_world JNull) =
      \<lparr>reply = Inl (Error ''bad protocol''), fetched = [], files = cloud_files (sample_world JNull)\<rparr>"
    by (rule GET_norm_failure [OF _ _ _ sample_norm_httpx]) (simp_all add: sample_request_def)
  have p: "POST sample_platform sample_env
      ((sample_request (Some ''https://app.test'') [])
         \<lparr>req_json := Inr (JObj [(''domain'', JStr ''httpx://foo'')])\<rparr>) (sample_world JNull) =
      \<lparr>reply = Inl (Error ''bad protocol''), fetched = [], files = cloud_files (sample_world JNull)\<rparr>"
    by (rule POST_norm_failure [OF _ _ _ _ sample_norm_httpx, of _ "''https://app.test''"])
      (simp_all add: sample_request_def sample_ORIGINS)
  show ?thesis by (simp add: g p)
qed

lemma ORIGINS_no_empty: "[] \<notin> set (ORIGINS e)"
  by (simp add: ORIGINS_def)


lemma acao_cors:
  "map_of (cors e h) ''access-control-allow-origin'' =
     Some (case h of Some x \<Rightarrow> if x \<in> set (ORIGINS e) then x else ''null'' | None \<Rightarrow> ''null'')"
  using ORIGINS_no_empty [of e]
  by (auto simp: cors_def split: option.splits)







text \<open>
  Claim C10. A \<open>GET\<close> whose \<open>ping\<close> parameter is \<open>1\<close> is answered with status 200 and a JSON
  body that lists the names of all environment variables, whatever its \<open>domain\<close> parameter
  is and whether it has one; nothing is sent upstream and the storage is not touched.
\<close>

theorem GET_ping:
  assumes "map_of (req_search req) ''ping'' = Some ''1''"
  shows "GET plat e req w =
     \<lparr>reply = Inr
        \<lparr>status = 200,
         body = Json (JObj
           [(''ok'', JBool True),
            (''basePath'', JStr (case getenv e ''NEXT_PUBLIC_BASE_PATH'' of Some p \<Rightarrow> p | None \<Rightarrow> [])),
            (''workerUrlSet'', JBool (getenv e ''CF_WORKER_URL'' \<noteq> None)),
            (''tokenSet'', JBool (getenv e ''CF_WORKER_TOKEN'' \<noteq> None)),
            (''envKeys'', JArr (map (\<lambda>kv. JStr (fst kv)) e))]),
         headers = json_headers e (req_origin req)\<rparr>,
      fetched = [], files = cloud_files w\<rparr>"
  using assms by (simp add: GET_def)

text \<open>A ping without a domain.\<close>

theorem GET_ping_witness:
  "map_of (req_search (sample_request None [(''ping'', ''1'')])) ''ping'' = Some ''1'' \<and>
   map_of (req_search (sample_request None [(''ping'', ''1'')])) ''domain'' = None \<and>
   GET sample_platform sample_env (sample_request None [(''ping'', ''1'')]) (sample_world JNull) =
     \<lparr>reply = Inr
        \<lparr>status = 200,
         body = Json (JObj
           [(''ok'', JBool True),
            (''basePath'', JStr (case getenv sample_env ''NEXT_PUBLIC_BASE_PATH'' of
                                  Some p \<Rightarrow> p | None \<Rightarrow> [])),
            (''workerUrlSet'', JBool (getenv sample_env ''CF_WORKER_URL'' \<noteq> None)),
            (''tokenSet'', JBool (getenv sample_env ''CF_WORKER_TOKEN'' \<noteq> None)),
            (''envKeys'', JArr (map (\<lambda>kv. JStr (fst kv)) sample_env))]),
         headers = json_headers sample_env (req_origin (sample_request None [(''ping'', ''1'')]))\<rparr>,
      fetched = [], files = cloud_files (sample_world JNull)\<rparr> \<and>
   map (\<lambda>kv. JStr (fst kv)) sample_env =
     [JStr ''CF_WORKER_URL'', JStr ''CF_WORKER_TOKEN'', JStr ''ALLOWED_ORIGINS'',
      JStr ''NEXT_PUBLIC_BASE_PATH'']"
proof -
  have p: "map_of (req_search (sample_request None [(''ping'', ''1'')])) ''ping'' = Some ''1''"
    by (simp add: sample_request_def)
  have d: "map_of (req_search (sample_request None [(''ping'', ''1'')])) ''domain'' = None"
    by (simp add: sample_request_def)
  have k: "map (\<lambda>kv. JStr (fst kv)) sample_env =
     [JStr ''CF_WORKER_URL'', JStr ''CF_WORKER_TOKEN'', JStr ''ALLOWED_ORIGINS'',
      JStr ''NEXT_PUBLIC_BASE_PATH'']"
    by (simp add: sample_env_def)
  show ?thesis
    by (intro conjI p d k GET_ping [OF p])
qed

section \<open>The image route\<close>

text \<open>
  Claim C8, as amended. For every key \<open>K\<close> that is not empty, all bytes \<open>B\<close> and every content
  type \<open>T\<close> that is not empty: after \<open>put(K, B, T)\<close>, the image route answers a request for \<open>K\<close>
  with status 200, body \<open>B\<close>, content type \<open>T\<close> and the immutable cache directive; for a key
  that is not empty and holds no object it answers 404; and for the empty key it answers 400.
\<close>

theorem stored_image_round_trip:
  "(K \<noteq> [] \<longrightarrow> T \<noteq> [] \<longrightarrow> join ''/'' parts = K \<longrightarrow>
      image_GET (Segments parts) (Some (bucket_put (K, B, T) b)) =
        Inr \<lparr>status = 200, body = Bytes B,
             headers = [(''content-type'', T),
                        (''cache-control'', ''public, max-age=31536000, immutable'')]\<rparr>) \<and>
   (K \<noteq> [] \<longrightarrow> join ''/'' parts = K \<longrightarrow> bucket_get b K = None \<longrightarrow>
      image_GET (Segments parts) (Some b) =
        Inr \<lparr>status = 404, body = Text ''Not found'', headers = []\<rparr>) \<and>
   (join ''/'' parts = [] \<longrightarrow>
      image_GET (Segments parts) (Some b) =
        Inr \<lparr>status = 400, body = Text ''Bad Request'', headers = []\<rparr>)"
  by (simp add: image_GET_def bucket_put_def bucket_get_def)

text \<open>The key of a stored section image, and the same key in an empty store.\<close>

theorem stored_image_round_trip_witness:
  "''jobs/job/section_0.jpg'' \<noteq> [] \<and> ''image/jpeg'' \<noteq> [] \<and>
   join ''/'' [''jobs'', ''job'', ''section_0.jpg''] = ''jobs/job/section_0.jpg'' \<and>
   image_GET (Segments [''jobs'', ''job'', ''section_0.jpg''])
       (Some (bucket_put (''jobs/job/section_0.jpg'', [65, 66, 67], ''image/jpeg'') Map.empty)) =
     Inr \<lparr>status = 200, body = Bytes [65, 66, 67],
          headers = [(''content-type'', ''image/jpeg''),
                     (''cache-control'', ''public, max-age=31536000, immutable'')]\<rparr> \<and>
   bucket_get Map.empty ''jobs/job/section_0.jpg'' = None \<and>
   image_GET (Segments [''jobs'', ''job'', ''section_0.jpg'']) (Some Map.empty) =
     Inr \<lparr>status = 404, body = Text ''Not found'', headers = []\<rparr>"
proof -
  have k: "''jobs/job/section_0.jpg'' \<noteq> []" and t: "''image/jpeg'' \<noteq> []" by simp_all
  have j: "join ''/'' [''jobs'', ''job'', ''section_0.jpg''] = ''jobs/job/section_0.jpg''" by simp
  have n: "bucket_get Map.empty ''jobs/job/section_0.jpg'' = None" by (simp add: bucket_get_def)
  note r = stored_image_round_trip [of "''jobs/job/section_0.jpg''" "''image/jpeg''"
      "[''jobs'', ''job'', ''section_0.jpg'']" "[65, 66, 67]" Map.empty]
  show ?thesis
    by (intro conjI k t j n r [THEN conjunct1, rule_format, OF k t j]
        r [THEN conjunct2, THEN conjunct1, rule_format, OF k j n])
qed

text \<open>
  Claim C8 as stated fails for the empty key, which holds no object and is answered with 400
  instead of 404, and for the empty content type, which is served as \<open>image/webp\<close>.
\<close>

theorem empty_key_or_type_not_round_trip:
  "bucket_get Map.empty [] = None \<and>
   image_GET (Segments []) (Some Map.empty) =
     Inr \<lparr>status = 400, body = Text ''Bad Request'', headers = []\<rparr> \<and>
   image_GET (Segments [''k'']) (Some (bucket_put (''k'', [65], []) Map.empty)) =
     Inr \<lparr>status = 200, body = Bytes [65],
          headers = [(''content-type'', ''image/webp''),
                     (''cache-control'', ''public, max-age=31536000, immutable'')]\<rparr>"
  by (simp add: image_GET_def bucket_put_def bucket_get_def)

end
